theory Spec2Isabelle
  imports
    Main
    "HOL-Library.Word"
    "HOL-Library.Sublist"
    "HOL-Library.Multiset"
    "HOL-Library.Char_ord"
    "HOL-Library.List_Lexorder"
begin

section \<open>Text, bytes and exceptions\<close>

text \<open>
  The command line tool \<^verbatim>\<open>tools/esp32_udp_logger_cli.py\<close> works on three kinds of
  sequences.  A Python \<^verbatim>\<open>str\<close> that the program inspects (device names, command line
  arguments, lines typed by the operator, operating system error texts) is a \<open>string\<close>:
  one \<open>char\<close> per code point, so the code points are those below 256.  The library
  functions \<^verbatim>\<open>lower\<close>, \<^verbatim>\<open>strip\<close>, \<^verbatim>\<open>isdigit\<close> and \<^verbatim>\<open>int\<close> are written out for
  exactly that range.  A datagram is a list of bytes.  Text decoded from a datagram may
  hold any code point (the replacement character is U+FFFD), so it is a list of code
  points, and so is everything written to standard output.
\<close>

type_synonym bytes = "8 word list"
type_synonym ustr = "nat list"

definition ustr_of :: "string \<Rightarrow> ustr" where
  "ustr_of s = map of_char s"

text \<open>
  Exceptions are values.  \<^verbatim>\<open>socket.timeout\<close> is a subclass of \<^verbatim>\<open>OSError\<close>; the other
  classes are not.  The string is what \<^verbatim>\<open>str(e)\<close> gives.
\<close>

datatype exn =
    SystemExit string
  | OSError string
  | SocketTimeout string
  | OverflowError string
  | ValueError string
  | EOFError
  | KeyboardInterrupt

fun is_OSError :: "exn \<Rightarrow> bool" where
  "is_OSError (OSError m) = True"
| "is_OSError (SocketTimeout m) = True"
| "is_OSError e = False"

fun is_timeout :: "exn \<Rightarrow> bool" where
  "is_timeout (SocketTimeout m) = True"
| "is_timeout e = False"

fun exn_str :: "exn \<Rightarrow> string" where
  "exn_str (SystemExit m) = m"
| "exn_str (OSError m) = m"
| "exn_str (SocketTimeout m) = m"
| "exn_str (OverflowError m) = m"
| "exn_str (ValueError m) = m"
| "exn_str EOFError = []"
| "exn_str KeyboardInterrupt = []"

text \<open>
  How a run of the interpreter ends: status 0 when \<^verbatim>\<open>main\<close> returns, status 1 with the
  message on standard error for \<^verbatim>\<open>SystemExit(message)\<close>, status 1 with a traceback for
  any other exception (status 130 is the shell's convention for an interrupt and is not
  distinguished here).
\<close>

fun exit_status :: "exn + 'a \<Rightarrow> nat" where
  "exit_status (Inr v) = 0"
| "exit_status (Inl e) = 1"

fun user_message :: "exn + 'a \<Rightarrow> string option" where
  "user_message (Inl (SystemExit m)) = Some m"
| "user_message r = None"

fun unhandled :: "exn + 'a \<Rightarrow> bool" where
  "unhandled (Inr v) = False"
| "unhandled (Inl (SystemExit m)) = False"
| "unhandled (Inl e) = True"

subsection \<open>\<^verbatim>\<open>str(int)\<close> and \<^verbatim>\<open>int(str)\<close>\<close>

definition digit_char :: "nat \<Rightarrow> char" where
  "digit_char d = char_of (48 + d)"

function str_nat :: "nat \<Rightarrow> string" where
  "str_nat n = (if n < 10 then [digit_char n] else str_nat (n div 10) @ [digit_char (n mod 10)])"
  by pat_completeness auto
termination
  by (relation "measure (\<lambda>n. n)") auto

declare str_nat.simps [simp del]

definition str_int :: "int \<Rightarrow> string" where
  "str_int i = (if i < 0 then CHR ''-'' # str_nat (nat (- i)) else str_nat (nat i))"

definition is_ascii_digit :: "char \<Rightarrow> bool" where
  "is_ascii_digit c \<longleftrightarrow> 48 \<le> (of_char c :: nat) \<and> (of_char c :: nat) \<le> 57"

text \<open>
  \<^verbatim>\<open>str.isdigit\<close>: below 256 the digits are 0 to 9 and the superscripts two, three
  and one (U+00B2, U+00B3, U+00B9).  The empty string has no digit.
\<close>

definition is_digit_char :: "char \<Rightarrow> bool" where
  "is_digit_char c \<longleftrightarrow>
     is_ascii_digit c \<or> (of_char c :: nat) = 178 \<or> (of_char c :: nat) = 179
       \<or> (of_char c :: nat) = 185"

definition isdigit :: "string \<Rightarrow> bool" where
  "isdigit s \<longleftrightarrow> s \<noteq> [] \<and> list_all is_digit_char s"

text \<open>
  \<^verbatim>\<open>int(s)\<close> on a string that passed \<^verbatim>\<open>isdigit\<close>.  The interpreter counts the
  digits 0 to 9 at the start of the string and raises \<^verbatim>\<open>ValueError\<close> when there
  are more than its limit for integer strings, 4300 by default
  (\<^verbatim>\<open>sys.get_int_max_str_digits()\<close>); it raises \<^verbatim>\<open>ValueError\<close> as well when a
  superscript digit occurs; otherwise the result is the decimal value.
\<close>

definition INT_MAX_STR_DIGITS :: nat where
  "INT_MAX_STR_DIGITS = 4300"

definition int_of_digits :: "string \<Rightarrow> exn + int" where
  "int_of_digits s =
     (let digits = length (takeWhile is_ascii_digit s)
      in if INT_MAX_STR_DIGITS < digits
         then Inl (ValueError (''Exceeds the limit (4300 digits) for integer string conversion: ''
                     @ ''value has '' @ str_nat digits
                     @ '' digits; use sys.set_int_max_str_digits() to increase the limit''))
         else if list_all is_ascii_digit s
         then Inr (foldl (\<lambda>a c. 10 * a + (int (of_char c) - 48)) 0 s)
         else Inl (ValueError (''invalid literal for int() with base 10: '' @ [CHR 0x27] @ s
                                 @ [CHR 0x27])))"

subsection \<open>\<^verbatim>\<open>strip\<close>, \<^verbatim>\<open>rstrip\<close>, \<^verbatim>\<open>lower\<close>, \<^verbatim>\<open>split\<close>, padding\<close>

definition isspace :: "char \<Rightarrow> bool" where
  "isspace c \<longleftrightarrow>
     (let n = (of_char c :: nat)
      in (9 \<le> n \<and> n \<le> 13) \<or> (28 \<le> n \<and> n \<le> 32) \<or> n = 133 \<or> n = 160)"

definition lstrip :: "string \<Rightarrow> string" where
  "lstrip s = dropWhile isspace s"

definition rstrip :: "string \<Rightarrow> string" where
  "rstrip s = rev (dropWhile isspace (rev s))"

definition strip :: "string \<Rightarrow> string" where
  "strip s = rstrip (lstrip s)"

definition rstrip_chars :: "char \<Rightarrow> string \<Rightarrow> string" where
  "rstrip_chars c s = rev (dropWhile (\<lambda>x. x = c) (rev s))"

text \<open>
  \<^verbatim>\<open>str.lower\<close> below 256: A to Z, and the capital letters U+00C0 to U+00DE other
  than the multiplication sign U+00D7, move up by 32.
\<close>

definition lower_char :: "char \<Rightarrow> char" where
  "lower_char c =
     (let n = (of_char c :: nat)
      in if (65 \<le> n \<and> n \<le> 90) \<or> (192 \<le> n \<and> n \<le> 222 \<and> n \<noteq> 215)
         then char_of (n + 32) else c)"

definition lower :: "string \<Rightarrow> string" where
  "lower s = map lower_char s"

text \<open>\<^verbatim>\<open>s.split(sep)[0]\<close> for a non-empty separator: the part before its first occurrence.\<close>

fun split_head :: "string \<Rightarrow> string \<Rightarrow> string" where
  "split_head sep [] = []"
| "split_head sep (c # cs) = (if prefix sep (c # cs) then [] else c # split_head sep cs)"

definition ljust :: "nat \<Rightarrow> string \<Rightarrow> string" where
  "ljust w s = s @ replicate (w - length s) CHR '' ''"

definition rjust :: "nat \<Rightarrow> string \<Rightarrow> string" where
  "rjust w s = replicate (w - length s) CHR '' '' @ s"

subsection \<open>UTF-8\<close>

text \<open>
  \<^verbatim>\<open>str.encode("utf-8", errors="replace")\<close> on code points below 256: one byte below
  128, two bytes from there on.  No code point in this range is a surrogate, so nothing
  is replaced.
\<close>

definition encode_char :: "char \<Rightarrow> bytes" where
  "encode_char c =
     (let n = (of_char c :: nat)
      in if n < 128 then [of_nat n] else [of_nat (192 + n div 64), of_nat (128 + n mod 64)])"

definition utf8_encode :: "string \<Rightarrow> bytes" where
  "utf8_encode s = concat (map encode_char s)"

text \<open>
  \<^verbatim>\<open>bytes.decode("utf-8", errors="replace")\<close>.  \<open>utf8_step b0 rest\<close> reads the sequence
  that starts with the byte \<open>b0\<close> and gives its code point and how many bytes of
  \<open>rest\<close> belong to it.  An ill-formed sequence gives U+FFFD for its longest prefix
  that starts a well-formed sequence (one byte when there is none).
\<close>

definition is_cont :: "nat \<Rightarrow> nat \<Rightarrow> nat \<Rightarrow> bool" where
  "is_cont lo hi b \<longleftrightarrow> lo \<le> b \<and> b \<le> hi"

definition second_lo :: "nat \<Rightarrow> nat" where
  "second_lo b0 = (if b0 = 224 then 160 else if b0 = 240 then 144 else 128)"

definition second_hi :: "nat \<Rightarrow> nat" where
  "second_hi b0 = (if b0 = 237 then 159 else if b0 = 244 then 143 else 191)"

definition REPLACEMENT :: nat where
  "REPLACEMENT = 65533"

fun utf8_step :: "nat \<Rightarrow> nat list \<Rightarrow> nat \<times> nat" where
  "utf8_step b0 rest =
     (if b0 < 128 then (b0, 0)
      else if 194 \<le> b0 \<and> b0 \<le> 223 then
        (case rest of
           b1 # r1 \<Rightarrow>
             if is_cont 128 191 b1 then ((b0 - 192) * 64 + (b1 - 128), 1) else (REPLACEMENT, 0)
         | [] \<Rightarrow> (REPLACEMENT, 0))
      else if 224 \<le> b0 \<and> b0 \<le> 239 then
        (case rest of
           b1 # b2 # r2 \<Rightarrow>
             if \<not> is_cont (second_lo b0) (second_hi b0) b1 then (REPLACEMENT, 0)
             else if \<not> is_cont 128 191 b2 then (REPLACEMENT, 1)
             else ((b0 - 224) * 4096 + (b1 - 128) * 64 + (b2 - 128), 2)
         | [b1] \<Rightarrow>
             if is_cont (second_lo b0) (second_hi b0) b1 then (REPLACEMENT, 1)
             else (REPLACEMENT, 0)
         | [] \<Rightarrow> (REPLACEMENT, 0))
      else if 240 \<le> b0 \<and> b0 \<le> 244 then
        (case rest of
           b1 # b2 # b3 # r3 \<Rightarrow>
             if \<not> is_cont (second_lo b0) (second_hi b0) b1 then (REPLACEMENT, 0)
             else if \<not> is_cont 128 191 b2 then (REPLACEMENT, 1)
             else if \<not> is_cont 128 191 b3 then (REPLACEMENT, 2)
             else ((b0 - 240) * 262144 + (b1 - 128) * 4096 + (b2 - 128) * 64 + (b3 - 128), 3)
         | [b1, b2] \<Rightarrow>
             if \<not> is_cont (second_lo b0) (second_hi b0) b1 then (REPLACEMENT, 0)
             else if \<not> is_cont 128 191 b2 then (REPLACEMENT, 1)
             else (REPLACEMENT, 2)
         | [b1] \<Rightarrow>
             if is_cont (second_lo b0) (second_hi b0) b1 then (REPLACEMENT, 1)
             else (REPLACEMENT, 0)
         | [] \<Rightarrow> (REPLACEMENT, 0))
      else (REPLACEMENT, 0))"

declare utf8_step.simps [simp del]

fun decode_nats :: "nat list \<Rightarrow> ustr" where
  "decode_nats [] = []"
| "decode_nats (b0 # rest) =
     fst (utf8_step b0 rest) # decode_nats (drop (snd (utf8_step b0 rest)) rest)"

definition utf8_decode :: "bytes \<Rightarrow> ustr" where
  "utf8_decode data = decode_nats (map unat data)"

section \<open>Devices and discovery\<close>

definition SERVICE_TYPE :: string where
  "SERVICE_TYPE = ''_esp32udplog._udp.local.''"

definition DEFAULT_RX_PORT :: int where
  "DEFAULT_RX_PORT = 9998"

definition DEFAULT_TX_PORT :: int where
  "DEFAULT_TX_PORT = 9999"

record device =
  name :: string
  host :: string
  ip :: string
  port :: int

text \<open>
  What the program reads of a \<^verbatim>\<open>ServiceInfo\<close> of the zeroconf library: \<^verbatim>\<open>info.port\<close>,
  \<^verbatim>\<open>info.parsed_addresses()\<close> and \<^verbatim>\<open>info.server\<close>, each of which the program
  allows to be \<^verbatim>\<open>None\<close>.
\<close>

record service_info =
  info_port :: "int option"
  parsed_addresses :: "string list option"
  server :: "string option"

text \<open>The loop that takes the first address without a colon; \<^verbatim>\<open>ip\<close> starts empty.\<close>

fun first_ipv4 :: "string list \<Rightarrow> string" where
  "first_ipv4 [] = []"
| "first_ipv4 (addr # addrs) = (if CHR '':'' \<notin> set addr then addr else first_ipv4 addrs)"

definition info_to_device :: "service_info option \<Rightarrow> string \<Rightarrow> device option" where
  "info_to_device info fqdn =
     (case info of
        None \<Rightarrow> None
      | Some i \<Rightarrow>
          (let instance = split_head ''._esp32udplog._udp.local.'' fqdn;
               p = (case info_port i of
                      None \<Rightarrow> DEFAULT_RX_PORT
                    | Some n \<Rightarrow> if n \<noteq> 0 then n else DEFAULT_RX_PORT);
               a = first_ipv4 (case parsed_addresses i of None \<Rightarrow> [] | Some as \<Rightarrow> as);
               h = rstrip_chars CHR ''.'' (case server i of None \<Rightarrow> [] | Some s \<Rightarrow> s)
           in if a = [] then None
              else Some \<lparr>name = instance,
                         host = (if h \<noteq> [] then h else instance @ ''.local''),
                         ip = a, port = p\<rparr>))"

text \<open>
  The listener's dictionary \<^verbatim>\<open>devices\<close>, in insertion order: storing under a key
  that is present replaces the value where it stands, a new key goes to the end.
\<close>

fun dict_set :: "'k \<Rightarrow> 'v \<Rightarrow> ('k \<times> 'v) list \<Rightarrow> ('k \<times> 'v) list" where
  "dict_set k v [] = [(k, v)]"
| "dict_set k v ((k', v') # kvs) =
     (if k' = k then (k, v) # kvs else (k', v') # dict_set k v kvs)"

definition dict_values :: "('k \<times> 'v) list \<Rightarrow> 'v list" where
  "dict_values kvs = map snd kvs"

text \<open>
  The callbacks the service browser delivers to the listener.  \<^verbatim>\<open>add_service\<close> asks
  the library for the service's record; the event carries the answer (\<open>None\<close> when
  the lookup gives nothing).
\<close>

datatype sb_event =
    Add_service string "service_info option"
  | Update_service string "service_info option"
  | Remove_service string

definition add_service :: "(string \<times> device) list \<Rightarrow> string \<Rightarrow> service_info option
    \<Rightarrow> (string \<times> device) list" where
  "add_service devices fqdn info =
     (case info_to_device info fqdn of
        None \<Rightarrow> devices
      | Some dev \<Rightarrow> dict_set (name dev) dev devices)"

fun listener_step :: "(string \<times> device) list \<Rightarrow> sb_event \<Rightarrow> (string \<times> device) list" where
  "listener_step devices (Add_service fqdn info) = add_service devices fqdn info"
| "listener_step devices (Update_service fqdn info) = add_service devices fqdn info"
| "listener_step devices (Remove_service fqdn) = devices"

text \<open>
  \<^verbatim>\<open>discover\<close>: the dictionary after the callbacks of the discovery window, its values
  in order, sorted (stably) by the lower-cased name.
\<close>

definition discover :: "sb_event list \<Rightarrow> device list" where
  "discover events =
     sort_key (\<lambda>d. lower (name d)) (dict_values (foldl listener_step [] events))"

section \<open>Standard input and output, the network\<close>

text \<open>
  The state a run changes: the lines still to be read from standard input (reading
  past the last one is end of file), the code points written to standard output, and
  the datagrams handed to the network, each with its destination.
\<close>

record io =
  stdin :: "string list"
  stdout :: ustr
  sent :: "(string \<times> int \<times> bytes) list"

definition print :: "string \<Rightarrow> io \<Rightarrow> io" where
  "print s w = w\<lparr>stdout := stdout w @ ustr_of s @ [10]\<rparr>"

definition print_ustr :: "ustr \<Rightarrow> io \<Rightarrow> io" where
  "print_ustr s w = w\<lparr>stdout := stdout w @ s @ [10]\<rparr>"

definition stdout_write :: "ustr \<Rightarrow> io \<Rightarrow> io" where
  "stdout_write s w = w\<lparr>stdout := stdout w @ s\<rparr>"

text \<open>
  What the operating system answers in a run.  \<open>mdns\<close> is the sequence of browser
  callbacks of the discovery window.  \<open>local_addr target\<close> is the outcome of
  creating a socket, connecting it to the target and reading its own address.
  \<open>udp_socket\<close>, \<open>udp_bind\<close> and \<open>udp_sendto\<close> hold the exception the
  call raises, if any; \<open>udp_recvfrom\<close> is the exception or the datagram of the one
  receive of \<^verbatim>\<open>send_udp_cmd\<close>.  The listener receives the datagrams \<open>log_datagrams\<close>
  and then the exception \<open>log_end\<close>: its loop has no exit, so a run of it that ends,
  ends with an exception raised in the receive (the interrupt key, an error of the
  socket).
\<close>

record os =
  mdns :: "sb_event list"
  local_addr :: "string \<Rightarrow> exn + string"
  udp_socket :: "exn option"
  udp_bind :: "exn option"
  udp_sendto :: "exn option"
  udp_recvfrom :: "exn + bytes"
  log_datagrams :: "bytes list"
  log_end :: exn

text \<open>
  \<^verbatim>\<open>input(prompt)\<close>: the prompt goes to standard output, then one line is read
  (without its line end); at the end of the input it raises \<^verbatim>\<open>EOFError\<close>.
\<close>

definition input :: "string \<Rightarrow> io \<Rightarrow> (exn + string) \<times> io" where
  "input prompt w =
     (case stdin w of
        [] \<Rightarrow> (Inl EOFError, stdout_write (ustr_of prompt) w)
      | line # rest \<Rightarrow> (Inr line, (stdout_write (ustr_of prompt) w)\<lparr>stdin := rest\<rparr>))"

section \<open>The operations\<close>

subsection \<open>\<^verbatim>\<open>pick_device\<close>\<close>

text \<open>
  The menu: one line for each device, numbered from 1, the number right-aligned in two
  columns, the name and the address padded to 24 and 15.
\<close>

definition menu_line :: "nat \<Rightarrow> device \<Rightarrow> string" where
  "menu_line i d =
     rjust 2 (str_nat i) @ '') '' @ ljust 24 (name d) @ ''  ip='' @ ljust 15 (ip d)
       @ ''  rx_port='' @ str_int (port d)"

fun print_menu :: "nat \<Rightarrow> device list \<Rightarrow> io \<Rightarrow> io" where
  "print_menu i [] w = w"
| "print_menu i (d # ds) w = print_menu (Suc i) ds (print (menu_line i d) w)"

text \<open>
  The \<^verbatim>\<open>while True\<close> loop of \<^verbatim>\<open>pick_device\<close>.  Every turn reads a line, so the
  loop ends at the latest with the \<^verbatim>\<open>EOFError\<close> of \<^verbatim>\<open>input\<close> at the end of
  the input.
\<close>

function select_device :: "device list \<Rightarrow> io \<Rightarrow> (exn + device) \<times> io" where
  "select_device devices w =
     (case input (''Select device [1-'' @ str_nat (length devices) @ '']: '') w of
        (Inl e, w1) \<Rightarrow> (Inl e, w1)
      | (Inr line, w1) \<Rightarrow>
          (let sel = strip line
           in if isdigit sel then
                (case int_of_digits sel of
                   Inl e \<Rightarrow> (Inl e, w1)
                 | Inr n \<Rightarrow>
                     if 1 \<le> n \<and> n \<le> int (length devices)
                     then (Inr (devices ! nat (n - 1)), w1)
                     else select_device devices (print ''Invalid selection.'' w1))
              else select_device devices (print ''Invalid selection.'' w1)))"
  by pat_completeness auto
termination
  by (relation "measure (\<lambda>(devices, w). length (stdin w))")
     (auto simp: input_def stdout_write_def print_def split: list.splits)

declare select_device.simps [simp del]

definition pick_device :: "device list \<Rightarrow> io \<Rightarrow> (exn + device) \<times> io" where
  "pick_device devices w =
     (if devices = []
      then (Inl (SystemExit
              ''No devices found. (mDNS blocked? component not advertising _esp32udplog._udp?)''), w)
      else select_device devices (print_menu 1 devices w))"

subsection \<open>\<^verbatim>\<open>send_udp_cmd\<close>, \<^verbatim>\<open>get_local_ip_for_target\<close>, \<^verbatim>\<open>listen_logs\<close>\<close>

definition network_error :: "string \<Rightarrow> int \<Rightarrow> exn \<Rightarrow> exn" where
  "network_error dst_ip dst_port e =
     SystemExit (''Network error sending command to '' @ dst_ip @ '':'' @ str_int dst_port
                   @ '': '' @ exn_str e)"

text \<open>
  The socket is created and bound before the \<^verbatim>\<open>try\<close>: an exception of either call
  leaves the function as it is.  Inside the \<^verbatim>\<open>try\<close>, an \<^verbatim>\<open>OSError\<close> of the send,
  or of the receive unless it is the timeout, becomes the \<^verbatim>\<open>SystemExit\<close>; any other
  exception passes through.  At most 2048 bytes of the reply are read.  The length of
  the wait is not modelled: \<open>udp_recvfrom\<close> says whether it ran out.
\<close>

definition send_udp_cmd :: "os \<Rightarrow> string \<Rightarrow> int \<Rightarrow> string \<Rightarrow> bool \<Rightarrow> io \<Rightarrow> (exn + ustr) \<times> io" where
  "send_udp_cmd env dst_ip dst_port cmd expect_reply w =
     (let cmd_bytes = utf8_encode cmd
      in case udp_socket env of
           Some e \<Rightarrow> (Inl e, w)
         | None \<Rightarrow>
             (case udp_bind env of
                Some e \<Rightarrow> (Inl e, w)
              | None \<Rightarrow>
                  (case udp_sendto env of
                     Some e \<Rightarrow>
                       (if is_OSError e then (Inl (network_error dst_ip dst_port e), w)
                        else (Inl e, w))
                   | None \<Rightarrow>
                       (let w1 = w\<lparr>sent := sent w @ [(dst_ip, dst_port, cmd_bytes)]\<rparr>
                        in if \<not> expect_reply then (Inr [], w1)
                           else (case udp_recvfrom env of
                                   Inr data \<Rightarrow> (Inr (utf8_decode (take 2048 data)), w1)
                                 | Inl e \<Rightarrow>
                                     if is_timeout e then (Inr [], w1)
                                     else if is_OSError e
                                     then (Inl (network_error dst_ip dst_port e), w1)
                                     else (Inl e, w1))))))"

definition get_local_ip_for_target :: "os \<Rightarrow> string \<Rightarrow> exn + string" where
  "get_local_ip_for_target env target_ip =
     (case local_addr env target_ip of
        Inr a \<Rightarrow> Inr a
      | Inl e \<Rightarrow>
          if is_OSError e
          then Inl (SystemExit (''Failed to determine local IP for '' @ target_ip @ '': ''
                                  @ exn_str e))
          else Inl e)"

definition log_datagram :: "io \<Rightarrow> bytes \<Rightarrow> io" where
  "log_datagram w data =
     (let txt = utf8_decode (take 65535 data);
          w1 = stdout_write txt w
      in if \<not> (txt \<noteq> [] \<and> last txt = 10) then stdout_write [10] w1 else w1)"

text \<open>
  \<^verbatim>\<open>listen_logs\<close> announces itself, creates the socket and binds it, with no
  \<^verbatim>\<open>try\<close> around either call, and then receives for ever.
\<close>

definition listen_logs :: "os \<Rightarrow> int \<Rightarrow> io \<Rightarrow> (exn + unit) \<times> io" where
  "listen_logs env listen_port w =
     (let w1 = print (''Listening for UDP logs on 0.0.0.0:'' @ str_int listen_port
                        @ '' (Ctrl+C to stop)'') w
      in case udp_socket env of
           Some e \<Rightarrow> (Inl e, w1)
         | None \<Rightarrow>
             (case udp_bind env of
                Some e \<Rightarrow> (Inl e, w1)
              | None \<Rightarrow> (Inl (log_end env), foldl log_datagram w1 (log_datagrams env))))"

subsection \<open>\<^verbatim>\<open>main\<close>\<close>

text \<open>
  The parsed command line: the subcommand with its arguments (\<^verbatim>\<open>--tx-port\<close> for
  \<^verbatim>\<open>pick\<close>; the device, \<^verbatim>\<open>--pc-ip\<close> and \<^verbatim>\<open>--tx-port\<close> for \<^verbatim>\<open>bind\<close>; the device
  for the four plain commands; \<^verbatim>\<open>--port\<close> for \<^verbatim>\<open>listen\<close>).
\<close>

datatype args =
    Cmd_list
  | Cmd_pick int
  | Cmd_bind string string int
  | Cmd_unbind string
  | Cmd_status string
  | Cmd_broadcast_on string
  | Cmd_broadcast_off string
  | Cmd_listen int

fun device_arg :: "args \<Rightarrow> string" where
  "device_arg (Cmd_bind dev pc_ip tx_port) = dev"
| "device_arg (Cmd_unbind dev) = dev"
| "device_arg (Cmd_status dev) = dev"
| "device_arg (Cmd_broadcast_on dev) = dev"
| "device_arg (Cmd_broadcast_off dev) = dev"
| "device_arg a = []"

text \<open>The two loops of \<^verbatim>\<open>resolve\<close>: the first device of that name, the first whose
  lower-cased name is the lower-cased argument.\<close>

fun find_exact :: "string \<Rightarrow> device list \<Rightarrow> device option" where
  "find_exact n [] = None"
| "find_exact n (d # ds) = (if name d = n then Some d else find_exact n ds)"

fun find_lower :: "string \<Rightarrow> device list \<Rightarrow> device option" where
  "find_lower n [] = None"
| "find_lower n (d # ds) = (if lower (name d) = lower n then Some d else find_lower n ds)"

definition resolve :: "string \<Rightarrow> device list \<Rightarrow> string \<Rightarrow> io \<Rightarrow> (exn + device) \<times> io" where
  "resolve argv0 devices n w =
     (if n = ''pick'' then pick_device devices w
      else (case find_exact n devices of
              Some d \<Rightarrow> (Inr d, w)
            | None \<Rightarrow>
                (case find_lower n devices of
                   Some d \<Rightarrow> (Inr d, w)
                 | None \<Rightarrow>
                     (Inl (SystemExit (''Device not found: '' @ n @ ''. Run: '' @ argv0
                                         @ '' list'')), w))))"

text \<open>\<^verbatim>\<open>print(send_udp_cmd(...) or default)\<close>: an empty reply prints the default.\<close>

fun print_reply :: "string \<Rightarrow> (exn + ustr) \<times> io \<Rightarrow> (exn + unit) \<times> io" where
  "print_reply dflt (Inl e, w) = (Inl e, w)"
| "print_reply dflt (Inr r, w) = (Inr (), print_ustr (if r \<noteq> [] then r else ustr_of dflt) w)"

text \<open>
  The end of \<^verbatim>\<open>main\<close>: the chain of tests on \<^verbatim>\<open>args.cmd\<close> that runs a command
  on the resolved device \<open>d\<close>.
\<close>

fun dispatch :: "os \<Rightarrow> args \<Rightarrow> device \<Rightarrow> io \<Rightarrow> (exn + unit) \<times> io" where
  "dispatch env (Cmd_bind dev pc_ip tx_port) d w =
     (case (if strip pc_ip \<noteq> [] then Inr (strip pc_ip) else get_local_ip_for_target env (ip d)) of
        Inl e \<Rightarrow> (Inl e, w)
      | Inr a \<Rightarrow>
          print_reply ''OK (no reply)''
            (send_udp_cmd env (ip d) (port d) (''bind '' @ a @ '' '' @ str_int tx_port) True w))"
| "dispatch env (Cmd_unbind dev) d w =
     print_reply ''OK (no reply)'' (send_udp_cmd env (ip d) (port d) ''unbind'' True w)"
| "dispatch env (Cmd_status dev) d w =
     print_reply ''(no reply)'' (send_udp_cmd env (ip d) (port d) ''status'' True w)"
| "dispatch env (Cmd_broadcast_on dev) d w =
     print_reply ''OK (no reply)'' (send_udp_cmd env (ip d) (port d) ''broadcast on'' True w)"
| "dispatch env (Cmd_broadcast_off dev) d w =
     print_reply ''OK (no reply)'' (send_udp_cmd env (ip d) (port d) ''broadcast off'' True w)"
| "dispatch env a d w = (Inr (), w)"

text \<open>
  The \<^verbatim>\<open>pick\<close> branch of \<^verbatim>\<open>main\<close>: the loop that reads the choice of an action
  (\<open>choose_action\<close>), the action chosen (\<open>pick_action\<close>), and the branch as
  a whole (\<open>pick_command\<close>).  \<open>list_command\<close> is the \<^verbatim>\<open>list\<close> branch.
\<close>

function choose_action :: "io \<Rightarrow> (exn + string) \<times> io" where
  "choose_action w =
     (case input ''Choose [1-5]: '' w of
        (Inl e, w1) \<Rightarrow> (Inl e, w1)
      | (Inr line, w1) \<Rightarrow>
          (let a = strip line
           in if a \<in> set [''1'', ''2'', ''3'', ''4'', ''5''] then (Inr a, w1)
              else choose_action w1))"
  by pat_completeness auto
termination
  by (relation "measure (\<lambda>w. length (stdin w))")
     (auto simp: input_def stdout_write_def split: list.splits)

declare choose_action.simps [simp del]

definition pick_action :: "os \<Rightarrow> int \<Rightarrow> device \<Rightarrow> string \<Rightarrow> io \<Rightarrow> (exn + unit) \<times> io" where
  "pick_action env tx_port d a w =
     (if a = ''1'' then
        (case get_local_ip_for_target env (ip d) of
           Inl e \<Rightarrow> (Inl e, w)
         | Inr pc_ip \<Rightarrow>
             print_reply ''OK (no reply)''
               (send_udp_cmd env (ip d) (port d) (''bind '' @ pc_ip @ '' '' @ str_int tx_port)
                  True w))
      else if a = ''2'' then
        print_reply ''(no reply)'' (send_udp_cmd env (ip d) (port d) ''status'' True w)
      else if a = ''3'' then
        print_reply ''OK (no reply)'' (send_udp_cmd env (ip d) (port d) ''unbind'' True w)
      else if a = ''4'' then
        print_reply ''OK (no reply)'' (send_udp_cmd env (ip d) (port d) ''broadcast off'' True w)
      else if a = ''5'' then
        print_reply ''OK (no reply)'' (send_udp_cmd env (ip d) (port d) ''broadcast on'' True w)
      else (Inr (), w))"

definition action_menu :: "string list" where
  "action_menu =
     [''Actions:'', ''  1) bind to me'', ''  2) status'', ''  3) unbind'',
      ''  4) broadcast off'', ''  5) broadcast on'']"

definition pick_command :: "os \<Rightarrow> int \<Rightarrow> device list \<Rightarrow> io \<Rightarrow> (exn + unit) \<times> io" where
  "pick_command env tx_port devices w =
     (case pick_device devices w of
        (Inl e, w1) \<Rightarrow> (Inl e, w1)
      | (Inr d, w1) \<Rightarrow>
          (let w2 = print (''Selected '' @ name d @ '' (ip='' @ ip d @ '', rx_port=''
                             @ str_int (port d) @ '')'') w1;
               w3 = foldl (\<lambda>v l. print l v) w2 action_menu
           in case choose_action w3 of
                (Inl e, w4) \<Rightarrow> (Inl e, w4)
              | (Inr a, w4) \<Rightarrow> pick_action env tx_port d a w4))"

definition list_line :: "device \<Rightarrow> string" where
  "list_line d =
     name d @ [CHR 0x09] @ ''ip='' @ ip d @ [CHR 0x09] @ ''rx_port='' @ str_int (port d)"

definition list_command :: "device list \<Rightarrow> io \<Rightarrow> (exn + unit) \<times> io" where
  "list_command devices w =
     (if devices = [] then (Inr (), print ''No devices found.'' w)
      else (Inr (), foldl (\<lambda>v d. print (list_line d) v) w devices))"

text \<open>
  \<^verbatim>\<open>main\<close>, from the parsed arguments on; \<open>argv0\<close> is \<^verbatim>\<open>sys.argv[0]\<close>.  Only
  \<^verbatim>\<open>listen\<close> runs without discovery.
\<close>

definition main :: "os \<Rightarrow> string \<Rightarrow> args \<Rightarrow> io \<Rightarrow> (exn + unit) \<times> io" where
  "main env argv0 a w =
     (case a of
        Cmd_listen p \<Rightarrow> listen_logs env p w
      | _ \<Rightarrow>
          (let devices = discover (mdns env)
           in case a of
                Cmd_list \<Rightarrow> list_command devices w
              | Cmd_pick tx_port \<Rightarrow> pick_command env tx_port devices w
              | _ \<Rightarrow>
                  (case resolve argv0 devices (device_arg a) w of
                     (Inl e, w1) \<Rightarrow> (Inl e, w1)
                   | (Inr d, w1) \<Rightarrow> dispatch env a d w1)))"

section \<open>Example runs and notions for the statements\<close>

text \<open>
  A run in which every call of the operating system succeeds and no reply arrives, an
  empty input and output, and the advertisement of a device with the given addresses.
\<close>

definition quiet_os :: os where
  "quiet_os =
     \<lparr>mdns = [], local_addr = (\<lambda>t. Inr ''192.168.1.10''), udp_socket = None,
      udp_bind = None, udp_sendto = None, udp_recvfrom = Inl (SocketTimeout ''timed out''),
      log_datagrams = [], log_end = KeyboardInterrupt\<rparr>"

definition io0 :: io where
  "io0 = \<lparr>stdin = [], stdout = [], sent = []\<rparr>"

definition advert :: "string \<Rightarrow> string list \<Rightarrow> sb_event" where
  "advert n addrs =
     Add_service (n @ ''._esp32udplog._udp.local.'')
       (Some \<lparr>info_port = Some 9998, parsed_addresses = Some addrs, server = None\<rparr>)"

definition two_devices :: "sb_event list" where
  "two_devices =
     [advert ''beta'' [''10.0.0.2''], advert ''Alpha'' [''10.0.0.1''],
      advert ''beta'' [''10.0.0.3''], advert ''gamma'' [''fe80::2'']]"

definition dev_alpha :: device where
  "dev_alpha = \<lparr>name = ''Alpha'', host = ''Alpha.local'', ip = ''10.0.0.1'', port = 9998\<rparr>"

definition dev_beta :: device where
  "dev_beta = \<lparr>name = ''beta'', host = ''beta.local'', ip = ''10.0.0.3'', port = 9998\<rparr>"

definition dev_pick :: device where
  "dev_pick = \<lparr>name = ''pick'', host = ''pick.local'', ip = ''10.0.0.9'', port = 9998\<rparr>"

text \<open>
  A device is advertised by a sequence of callbacks when one of its add or update
  callbacks carries a service record that converts to the device, with the device's
  address among the record's addresses.
\<close>

definition advertised :: "sb_event list \<Rightarrow> device \<Rightarrow> bool" where
  "advertised events d \<longleftrightarrow>
     (\<exists>fqdn info addrs.
        (Add_service fqdn (Some info) \<in> set events \<or> Update_service fqdn (Some info) \<in> set events)
        \<and> info_to_device (Some info) fqdn = Some d
        \<and> parsed_addresses info = Some addrs \<and> ip d \<in> set addrs)"

text \<open>The commands that name a device, and the one that needs no discovery.\<close>

fun takes_device :: "args \<Rightarrow> bool" where
  "takes_device (Cmd_bind dev pc_ip tx_port) = True"
| "takes_device (Cmd_unbind dev) = True"
| "takes_device (Cmd_status dev) = True"
| "takes_device (Cmd_broadcast_on dev) = True"
| "takes_device (Cmd_broadcast_off dev) = True"
| "takes_device a = False"

fun is_listen :: "args \<Rightarrow> bool" where
  "is_listen (Cmd_listen p) = True"
| "is_listen a = False"

text \<open>The three calls before the receive all succeed.\<close>

definition udp_ready :: "os \<Rightarrow> bool" where
  "udp_ready env \<longleftrightarrow> udp_socket env = None \<and> udp_bind env = None \<and> udp_sendto env = None"

section \<open>Properties\<close>

subsection \<open>Auxiliary facts\<close>

lemmas text_eval =
  str_int_def str_nat.simps digit_char_def char_of_def bit_Suc_0_iff
  strip_def lstrip_def rstrip_def isspace_def lower_def lower_char_def

lemma sublist_mid: "sublist xs (ps @ xs @ ss)"
  unfolding sublist_def by blast

subsection \<open>Failures of the local socket\<close>

text \<open>
  C3.  The tests of the repository expect \<^verbatim>\<open>send_udp_cmd\<close> to end with a
  \<^verbatim>\<open>SystemExit\<close> whose message contains "Failed to bind local UDP socket" when
  binding the socket raises an \<^verbatim>\<open>OSError\<close>.  The function binds outside its
  \<^verbatim>\<open>try\<close>: on the input of the test the \<^verbatim>\<open>OSError\<close> itself leaves the
  function, unhandled, and no message is produced.
\<close>

theorem send_udp_cmd_bind_error_unhandled:
  "send_udp_cmd (quiet_os\<lparr>udp_bind := Some (OSError ''permission denied'')\<rparr>)
       ''10.0.0.1'' 1234 ''status'' True io0
     = (Inl (OSError ''permission denied''), io0)
   \<and> unhandled (fst (send_udp_cmd (quiet_os\<lparr>udp_bind := Some (OSError ''permission denied'')\<rparr>)
       ''10.0.0.1'' 1234 ''status'' True io0))"
  by (simp add: send_udp_cmd_def quiet_os_def)

text \<open>
  C4.  Likewise the tests expect \<^verbatim>\<open>listen_logs\<close> to end with a \<^verbatim>\<open>SystemExit\<close>
  whose message contains "Failed to bind UDP listener on port 9000" when the bind raises
  an \<^verbatim>\<open>OSError\<close>.  The function has no \<^verbatim>\<open>try\<close> at all: on the input of the test
  the \<^verbatim>\<open>OSError\<close> leaves the function unhandled, and there is no message to the
  user.
\<close>

theorem listen_logs_bind_error_unhandled:
  "fst (listen_logs (quiet_os\<lparr>udp_bind := Some (OSError ''address in use'')\<rparr>) 9000 io0)
     = Inl (OSError ''address in use'')
   \<and> unhandled (fst (listen_logs (quiet_os\<lparr>udp_bind := Some (OSError ''address in use'')\<rparr>)
       9000 io0))
   \<and> user_message (fst (listen_logs (quiet_os\<lparr>udp_bind := Some (OSError ''address in use'')\<rparr>)
       9000 io0)) = None"
  by (simp add: listen_logs_def quiet_os_def)

text \<open>
  C5.  When the socket was created and bound and the send raises an \<^verbatim>\<open>OSError\<close>,
  \<^verbatim>\<open>send_udp_cmd\<close> ends with one \<^verbatim>\<open>SystemExit\<close> whose message is "Network error
  sending command to", the target address, a colon, the target port, and the text of the
  system's error; so the address, the port and the error text all occur in it.  Nothing
  was written or sent.
\<close>

theorem send_failure_message:
  assumes "udp_socket env = None" and "udp_bind env = None"
    and "udp_sendto env = Some e" and "is_OSError e"
  shows "\<exists>m. send_udp_cmd env dst_ip dst_port cmd expect_reply w = (Inl (SystemExit m), w)
       \<and> m = ''Network error sending command to '' @ dst_ip @ '':'' @ str_int dst_port
                @ '': '' @ exn_str e
       \<and> sublist dst_ip m \<and> sublist (str_int dst_port) m \<and> sublist (exn_str e) m"
proof -
  let ?m = "''Network error sending command to '' @ dst_ip @ '':'' @ str_int dst_port
                @ '': '' @ exn_str e"
  have run: "send_udp_cmd env dst_ip dst_port cmd expect_reply w = (Inl (SystemExit ?m), w)"
    using assms by (simp add: send_udp_cmd_def network_error_def)
  have a: "sublist dst_ip ?m"
    by (rule sublist_mid)
  have b: "sublist (str_int dst_port) ?m"
    using sublist_mid [of "str_int dst_port"
        "''Network error sending command to '' @ dst_ip @ '':''" "'': '' @ exn_str e"]
    by simp
  have c: "sublist (exn_str e) ?m"
    using sublist_mid [of "exn_str e"
        "''Network error sending command to '' @ dst_ip @ '':'' @ str_int dst_port @ '': ''" "[]"]
    by simp
  from run a b c show ?thesis by blast
qed

theorem send_failure_message_witness:
  "send_udp_cmd (quiet_os\<lparr>udp_sendto := Some (OSError ''network unreachable'')\<rparr>)
       ''10.0.0.2'' 4321 ''status'' True io0
     = (Inl (SystemExit ''Network error sending command to 10.0.0.2:4321: network unreachable''),
        io0)"
proof -
  let ?env = "quiet_os\<lparr>udp_sendto := Some (OSError ''network unreachable'')\<rparr>"
  have s: "str_int 4321 = ''4321''"
    by (simp add: text_eval)
  have h: "udp_socket ?env = None" "udp_bind ?env = None"
    "udp_sendto ?env = Some (OSError ''network unreachable'')"
    "is_OSError (OSError ''network unreachable'')"
    by (simp_all add: quiet_os_def)
  from send_failure_message [OF h, of "''10.0.0.2''" 4321 "''status''" True io0]
  obtain m where "send_udp_cmd ?env ''10.0.0.2'' 4321 ''status'' True io0 = (Inl (SystemExit m), io0)"
    and "m = ''Network error sending command to '' @ ''10.0.0.2'' @ '':'' @ str_int 4321
                @ '': '' @ exn_str (OSError ''network unreachable'')"
    by blast
  then show ?thesis by (simp add: s)
qed

subsection \<open>Discovery\<close>

lemma keys_dict_set: "set (map fst (dict_set k v kvs)) = insert k (set (map fst kvs))"
  by (induction kvs) (force split: if_splits)+

lemma distinct_dict_set: "distinct (map fst kvs) \<Longrightarrow> distinct (map fst (dict_set k v kvs))"
proof (induction kvs)
  case Nil
  then show ?case by simp
next
  case (Cons p kvs)
  obtain k' v' where p: "p = (k', v')" by (cases p)
  from Cons show ?case
    using keys_dict_set [of k v kvs] by (auto simp: p)
qed

lemma set_dict_set: "set (dict_set k v kvs) \<subseteq> insert (k, v) (set kvs)"
  by (induction kvs) (auto split: if_splits)

lemma first_ipv4_member: "first_ipv4 addrs \<noteq> [] \<Longrightarrow> first_ipv4 addrs \<in> set addrs"
  by (induction addrs) (auto split: if_splits)

lemma first_ipv4_no_colon: "CHR '':'' \<notin> set (first_ipv4 addrs)"
  by (induction addrs) auto

lemma info_to_device_ip:
  assumes "info_to_device (Some info) fqdn = Some d"
  shows "ip d \<noteq> [] \<and> CHR '':'' \<notin> set (ip d)
    \<and> (\<exists>addrs. parsed_addresses info = Some addrs \<and> ip d \<in> set addrs)"
proof -
  let ?as = "case parsed_addresses info of None \<Rightarrow> [] | Some as \<Rightarrow> as"
  from assms have ne: "first_ipv4 ?as \<noteq> []" and ipd: "ip d = first_ipv4 ?as"
    by (auto simp: info_to_device_def Let_def split: if_splits)
  from ne have mem: "first_ipv4 ?as \<in> set ?as"
    by (rule first_ipv4_member)
  then obtain addrs where "parsed_addresses info = Some addrs"
    by (cases "parsed_addresses info") auto
  with mem ne ipd first_ipv4_no_colon [of ?as] show ?thesis
    by auto
qed

lemma advertised_snoc: "advertised events d \<Longrightarrow> advertised (events @ [ev]) d"
  unfolding advertised_def by auto

text \<open>
  What the listener's dictionary holds after any sequence of callbacks: its keys are
  distinct, every value is stored under its own name and was advertised.
\<close>

lemma listener_invariant:
  "distinct (map fst (foldl listener_step [] events))
   \<and> (\<forall>(k, d) \<in> set (foldl listener_step [] events). k = name d \<and> advertised events d)"
proof (induction events rule: rev_induct)
  case Nil
  then show ?case by simp
next
  case (snoc ev events)
  let ?devs = "foldl listener_step [] events"
  have old: "\<forall>(k, d) \<in> set ?devs. k = name d \<and> advertised (events @ [ev]) d"
    using snoc by (auto intro: advertised_snoc)
  have add: "distinct (map fst (add_service ?devs fqdn info))
      \<and> (\<forall>(k, d) \<in> set (add_service ?devs fqdn info). k = name d \<and> advertised (events @ [ev]) d)"
    if ev: "ev = Add_service fqdn info \<or> ev = Update_service fqdn info" for fqdn info
  proof (cases "info_to_device info fqdn")
    case None
    with snoc old show ?thesis by (simp add: add_service_def)
  next
    case (Some dev)
    then obtain i where i: "info = Some i"
      by (cases info) (auto simp: info_to_device_def)
    from Some i ev info_to_device_ip [of i fqdn dev] have "advertised (events @ [ev]) dev"
      unfolding advertised_def by auto
    with old set_dict_set [of "name dev" dev ?devs] have
      "\<forall>(k, d) \<in> set (dict_set (name dev) dev ?devs). k = name d \<and> advertised (events @ [ev]) d"
      by auto
    with Some snoc distinct_dict_set [of ?devs "name dev" dev] show ?thesis
      by (simp add: add_service_def)
  qed
  show ?case
  proof (cases ev)
    case (Add_service fqdn info)
    with add [of fqdn info] show ?thesis by simp
  next
    case (Update_service fqdn info)
    with add [of fqdn info] show ?thesis by simp
  next
    case (Remove_service fqdn)
    with snoc old show ?thesis by simp
  qed
qed

text \<open>
  C7.  For every sequence of callbacks of a discovery session, the list \<^verbatim>\<open>discover\<close>
  returns is sorted by lower-cased name, holds no two records of the same instance
  name, and every record in it has a non-empty address without a colon that is one of
  the addresses of an add or update callback whose service record converts to that
  record: a service without such an address is not in the list.
\<close>

theorem discover_sorted_unique_ipv4:
  "sorted (map (\<lambda>d. lower (name d)) (discover events))
   \<and> distinct (map name (discover events))
   \<and> (\<forall>d \<in> set (discover events).
        ip d \<noteq> [] \<and> CHR '':'' \<notin> set (ip d)
        \<and> (\<exists>fqdn info addrs.
              (Add_service fqdn (Some info) \<in> set events
                 \<or> Update_service fqdn (Some info) \<in> set events)
              \<and> info_to_device (Some info) fqdn = Some d
              \<and> parsed_addresses info = Some addrs \<and> ip d \<in> set addrs))"
proof -
  let ?devs = "foldl listener_step [] events"
  have names: "map name (dict_values ?devs) = map fst ?devs"
    using listener_invariant [of events] by (auto simp: dict_values_def)
  have "mset (map name (discover events)) = mset (map name (dict_values ?devs))"
    by (simp add: discover_def)
  then have "distinct (map name (discover events)) \<longleftrightarrow> distinct (map name (dict_values ?devs))"
    by (rule mset_eq_imp_distinct_iff)
  with names listener_invariant [of events] have uniq: "distinct (map name (discover events))"
    by simp
  have srt: "sorted (map (\<lambda>d. lower (name d)) (discover events))"
    by (simp add: discover_def)
  have adv: "\<forall>d \<in> set (discover events). advertised events d"
    using listener_invariant [of events] by (auto simp: discover_def dict_values_def)
  have addr: "ip d \<noteq> [] \<and> CHR '':'' \<notin> set (ip d)" if "advertised events d" for d
    using that info_to_device_ip unfolding advertised_def by blast
  from adv addr have "\<forall>d \<in> set (discover events).
      ip d \<noteq> [] \<and> CHR '':'' \<notin> set (ip d) \<and> advertised events d"
    by blast
  with uniq srt show ?thesis
    unfolding advertised_def by blast
qed

lemma discover_two_devices: "discover two_devices = [dev_alpha, dev_beta]"
  by (simp add: discover_def two_devices_def advert_def add_service_def info_to_device_def
      rstrip_chars_def DEFAULT_RX_PORT_def dict_values_def dev_alpha_def dev_beta_def
      text_eval less_eq_char_def less_char_def list_le_def list_less_def)

theorem discover_sorted_unique_ipv4_witness:
  "discover two_devices = [dev_alpha, dev_beta]
   \<and> sorted (map (\<lambda>d. lower (name d)) (discover two_devices))
   \<and> distinct (map name (discover two_devices))
   \<and> ip dev_alpha = ''10.0.0.1'' \<and> ip dev_beta = ''10.0.0.3''"
  using discover_sorted_unique_ipv4 [of two_devices]
  by (simp add: discover_two_devices dev_alpha_def dev_beta_def)

subsection \<open>Resolving the device argument\<close>

lemma find_exact_Some: "find_exact n ds = Some d \<Longrightarrow> d \<in> set ds \<and> name d = n"
  by (induction ds) (auto split: if_splits)

lemma find_exact_None: "find_exact n ds = None \<longleftrightarrow> (\<forall>d \<in> set ds. name d \<noteq> n)"
  by (induction ds) auto

lemma find_lower_Some: "find_lower n ds = Some d \<Longrightarrow> d \<in> set ds \<and> lower (name d) = lower n"
  by (induction ds) (auto split: if_splits)

lemma find_lower_None: "find_lower n ds = None \<longleftrightarrow> (\<forall>d \<in> set ds. lower (name d) \<noteq> lower n)"
  by (induction ds) auto

lemma resolve_pick: "resolve argv0 devices ''pick'' w = pick_device devices w"
  by (simp add: resolve_def)

lemma resolve_exact:
  "n \<noteq> ''pick'' \<Longrightarrow> find_exact n devices = Some d \<Longrightarrow> resolve argv0 devices n w = (Inr d, w)"
  by (simp add: resolve_def)

lemma resolve_lower:
  "n \<noteq> ''pick'' \<Longrightarrow> find_exact n devices = None \<Longrightarrow> find_lower n devices = Some d
    \<Longrightarrow> resolve argv0 devices n w = (Inr d, w)"
  by (simp add: resolve_def)

lemma resolve_none:
  "n \<noteq> ''pick'' \<Longrightarrow> find_exact n devices = None \<Longrightarrow> find_lower n devices = None
    \<Longrightarrow> resolve argv0 devices n w
          = (Inl (SystemExit (''Device not found: '' @ n @ ''. Run: '' @ argv0 @ '' list'')), w)"
  by (simp add: resolve_def)

text \<open>
  C2.  The argument "pick" is answered by the interactive selection.  For any other
  argument: when a device has exactly that name, such a device is returned; when none
  has but the lower-cased name of one equals the lower-cased argument, such a device is
  returned; when there is none of either kind, the run ends with a \<^verbatim>\<open>SystemExit\<close>
  whose message is "Device not found:", the argument, and the advice to run the program
  with \<^verbatim>\<open>list\<close>.  Nothing is read or written on the way.
\<close>

theorem resolve_by_name:
  "(n = ''pick'' \<longrightarrow> resolve argv0 devices n w = pick_device devices w)
   \<and> (n \<noteq> ''pick'' \<and> (\<exists>d \<in> set devices. name d = n) \<longrightarrow>
        (\<exists>d. resolve argv0 devices n w = (Inr d, w) \<and> d \<in> set devices \<and> name d = n))
   \<and> (n \<noteq> ''pick'' \<and> (\<forall>d \<in> set devices. name d \<noteq> n)
        \<and> (\<exists>d \<in> set devices. lower (name d) = lower n) \<longrightarrow>
        (\<exists>d. resolve argv0 devices n w = (Inr d, w) \<and> d \<in> set devices
             \<and> lower (name d) = lower n))
   \<and> (n \<noteq> ''pick'' \<and> (\<forall>d \<in> set devices. lower (name d) \<noteq> lower n) \<longrightarrow>
        resolve argv0 devices n w
          = (Inl (SystemExit (''Device not found: '' @ n @ ''. Run: '' @ argv0 @ '' list'')), w))"
proof (intro conjI impI)
  assume "n = ''pick''"
  then show "resolve argv0 devices n w = pick_device devices w"
    using resolve_pick by blast
next
  assume a: "n \<noteq> ''pick'' \<and> (\<exists>d \<in> set devices. name d = n)"
  then have "find_exact n devices \<noteq> None"
    using find_exact_None by blast
  then obtain d where d: "find_exact n devices = Some d"
    by blast
  from a d have "resolve argv0 devices n w = (Inr d, w)"
    using resolve_exact by blast
  with find_exact_Some [OF d] show
    "\<exists>d. resolve argv0 devices n w = (Inr d, w) \<and> d \<in> set devices \<and> name d = n"
    by blast
next
  assume a: "n \<noteq> ''pick'' \<and> (\<forall>d \<in> set devices. name d \<noteq> n)
        \<and> (\<exists>d \<in> set devices. lower (name d) = lower n)"
  then have none: "find_exact n devices = None"
    using find_exact_None by blast
  from a have "find_lower n devices \<noteq> None"
    using find_lower_None by blast
  then obtain d where d: "find_lower n devices = Some d"
    by blast
  from a none d have "resolve argv0 devices n w = (Inr d, w)"
    using resolve_lower by blast
  with find_lower_Some [OF d] show
    "\<exists>d. resolve argv0 devices n w = (Inr d, w) \<and> d \<in> set devices \<and> lower (name d) = lower n"
    by blast
next
  assume a: "n \<noteq> ''pick'' \<and> (\<forall>d \<in> set devices. lower (name d) \<noteq> lower n)"
  then have l: "find_lower n devices = None"
    using find_lower_None by blast
  from a have "\<forall>d \<in> set devices. name d \<noteq> n"
    by blast
  then have e: "find_exact n devices = None"
    using find_exact_None by blast
  from a l e show "resolve argv0 devices n w
          = (Inl (SystemExit (''Device not found: '' @ n @ ''. Run: '' @ argv0 @ '' list'')), w)"
    using resolve_none by blast
qed


theorem resolve_by_name_witness:
  "resolve ''cli'' [dev_alpha, dev_beta] ''beta'' io0 = (Inr dev_beta, io0)
   \<and> resolve ''cli'' [dev_alpha, dev_beta] ''ALPHA'' io0 = (Inr dev_alpha, io0)
   \<and> resolve ''cli'' [dev_alpha, dev_beta] ''gamma'' io0
       = (Inl (SystemExit ''Device not found: gamma. Run: cli list''), io0)
   \<and> resolve ''cli'' [dev_alpha, dev_beta] ''pick'' io0 = pick_device [dev_alpha, dev_beta] io0"
proof -
  have 1: "resolve ''cli'' [dev_alpha, dev_beta] ''beta'' io0 = (Inr dev_beta, io0)"
    using resolve_by_name [of "''beta''" "''cli''" "[dev_alpha, dev_beta]" io0]
    by (auto simp: dev_alpha_def dev_beta_def)
  have 2: "resolve ''cli'' [dev_alpha, dev_beta] ''ALPHA'' io0 = (Inr dev_alpha, io0)"
    using resolve_by_name [of "''ALPHA''" "''cli''" "[dev_alpha, dev_beta]" io0]
    by (auto simp: dev_alpha_def dev_beta_def text_eval)
  have 3: "resolve ''cli'' [dev_alpha, dev_beta] ''gamma'' io0
       = (Inl (SystemExit ''Device not found: gamma. Run: cli list''), io0)"
    using resolve_by_name [of "''gamma''" "''cli''" "[dev_alpha, dev_beta]" io0]
    by (auto simp: dev_alpha_def dev_beta_def text_eval)
  have 4: "resolve ''cli'' [dev_alpha, dev_beta] ''pick'' io0
       = pick_device [dev_alpha, dev_beta] io0"
    using resolve_by_name [of "''pick''" "''cli''" "[dev_alpha, dev_beta]" io0]
    by simp
  from 1 2 3 4 show ?thesis by blast
qed

text \<open>
  C9, as the claim states it, fails: a device named "pick" is resolved by name when the
  argument differs from "pick" in case only, through the second loop of
  \<^verbatim>\<open>resolve\<close>.  Here the argument "PICK" returns that device with nothing read
  from the operator.
\<close>

theorem pick_device_resolved_by_name:
  "name dev_pick = ''pick''
   \<and> resolve ''cli'' [dev_beta, dev_pick] ''PICK'' io0 = (Inr dev_pick, io0)"
  by (simp add: resolve_def dev_pick_def dev_beta_def text_eval)

lemma int_of_digits_limit:
  assumes "list_all is_ascii_digit s" and "INT_MAX_STR_DIGITS < length s"
  shows "\<exists>m. int_of_digits s = Inl (ValueError m)"
proof -
  from assms(1) have "takeWhile is_ascii_digit s = s"
    by (simp add: takeWhile_eq_all_conv list_all_iff)
  then have "length (takeWhile is_ascii_digit s) = length s"
    by (rule arg_cong)
  with assms(2) show ?thesis
    unfolding int_of_digits_def Let_def by simp
qed

lemma stdin_print_menu: "stdin (print_menu i devices w) = stdin w"
  by (induction devices arbitrary: i w) (simp_all add: print_def)

lemma select_device_valid:
  assumes "stdin w = line # rest" and "isdigit (strip line)"
    and "int_of_digits (strip line) = Inr n" and "1 \<le> n" and "n \<le> int (length devices)"
  shows "fst (select_device devices w) = Inr (devices ! nat (n - 1))"
  using assms by (subst select_device.simps) (simp add: input_def)

text \<open>
  C9, amended.  For every device list, the argument "pick" itself is never matched
  against the names: it always gives the interactive selection, also when a device of
  that name is in the list, so that such a device is never resolved by passing its exact
  name.  When the first line the operator types is a position in the list (a decimal
  number from 1 to the number of devices that \<^verbatim>\<open>int\<close> accepts), the device at that
  position is returned, whatever it is called.
\<close>

theorem pick_argument_is_interactive:
  "resolve argv0 devices ''pick'' w = pick_device devices w
   \<and> (stdin w = line # rest \<and> isdigit (strip line) \<and> int_of_digits (strip line) = Inr n
        \<and> 1 \<le> n \<and> n \<le> int (length devices) \<longrightarrow>
        fst (resolve argv0 devices ''pick'' w) = Inr (devices ! nat (n - 1)))"
proof (intro conjI impI)
  show r: "resolve argv0 devices ''pick'' w = pick_device devices w"
    by (simp add: resolve_def)
  assume a: "stdin w = line # rest \<and> isdigit (strip line) \<and> int_of_digits (strip line) = Inr n
        \<and> 1 \<le> n \<and> n \<le> int (length devices)"
  then have "devices \<noteq> []"
    by auto
  moreover from a have "fst (select_device devices (print_menu 1 devices w))
      = Inr (devices ! nat (n - 1))"
    by (intro select_device_valid [of _ line rest]) (simp_all add: stdin_print_menu)
  ultimately show "fst (resolve argv0 devices ''pick'' w) = Inr (devices ! nat (n - 1))"
    by (simp add: r pick_device_def)
qed

theorem pick_argument_is_interactive_witness:
  "name dev_pick = ''pick''
   \<and> fst (resolve ''cli'' [dev_beta, dev_pick] ''pick'' (io0\<lparr>stdin := [''1'']\<rparr>)) = Inr dev_beta"
proof -
  have n: "name dev_pick = ''pick''"
    by (simp add: dev_pick_def)
  have h: "stdin (io0\<lparr>stdin := [''1'']\<rparr>) = ''1'' # [] \<and> isdigit (strip ''1'')
      \<and> int_of_digits (strip ''1'') = Inr 1 \<and> (1::int) \<le> 1
      \<and> 1 \<le> int (length [dev_beta, dev_pick])"
    by (simp add: isdigit_def is_digit_char_def is_ascii_digit_def int_of_digits_def
        INT_MAX_STR_DIGITS_def text_eval)
  from pick_argument_is_interactive [of "''cli''" "[dev_beta, dev_pick]" "io0\<lparr>stdin := [''1'']\<rparr>"
      "''1''" "[]" 1] h
  have "fst (resolve ''cli'' [dev_beta, dev_pick] ''pick'' (io0\<lparr>stdin := [''1'']\<rparr>))
      = Inr ([dev_beta, dev_pick] ! nat (1 - 1))"
    by blast
  with n show ?thesis by simp
qed

subsection \<open>Empty discovery\<close>

text \<open>
  C6, as the claim states it, fails.  With nothing discovered, \<^verbatim>\<open>list\<close> prints its
  notice and ends with status 0, and \<^verbatim>\<open>status my-device\<close> ends with the message of
  \<^verbatim>\<open>resolve\<close>, "Device not found: my-device. Run: ... list", not with the "No devices
  found" message.
\<close>

theorem empty_discovery_counterexample:
  "discover (mdns quiet_os) = []
   \<and> exit_status (fst (main quiet_os ''cli'' Cmd_list io0)) = 0
   \<and> fst (main quiet_os ''cli'' (Cmd_status ''my-device'') io0)
       = Inl (SystemExit ''Device not found: my-device. Run: cli list'')"
  by (simp add: main_def quiet_os_def discover_def dict_values_def list_command_def resolve_def)

text \<open>
  C6, amended.  When discovery returns the empty list, no command other than
  \<^verbatim>\<open>listen\<close> ends with an unhandled exception: \<^verbatim>\<open>list\<close> prints "No devices
  found." and returns; \<^verbatim>\<open>pick\<close>, and every device command whose device argument is
  "pick", end with the \<^verbatim>\<open>SystemExit\<close> message "No devices found. (mDNS blocked?
  ...)"; every device command with another device argument ends with the
  \<^verbatim>\<open>SystemExit\<close> message "Device not found: <argument>. Run: <program> list".
\<close>

theorem empty_discovery_outcomes:
  assumes "discover (mdns env) = []"
  shows "main env argv0 Cmd_list w = (Inr (), print ''No devices found.'' w)
     \<and> main env argv0 (Cmd_pick tx_port) w
         = (Inl (SystemExit
              ''No devices found. (mDNS blocked? component not advertising _esp32udplog._udp?)''), w)
     \<and> (takes_device a \<and> device_arg a = ''pick'' \<longrightarrow>
          main env argv0 a w
            = (Inl (SystemExit
                 ''No devices found. (mDNS blocked? component not advertising _esp32udplog._udp?)''), w))
     \<and> (takes_device a \<and> device_arg a \<noteq> ''pick'' \<longrightarrow>
          main env argv0 a w
            = (Inl (SystemExit (''Device not found: '' @ device_arg a @ ''. Run: '' @ argv0
                                  @ '' list'')), w))
     \<and> (\<not> is_listen a \<longrightarrow>
          \<not> unhandled (fst (main env argv0 a w))
          \<and> exit_status (fst (main env argv0 a w)) = (if a = Cmd_list then 0 else 1))"
proof -
  have l: "main env argv0 Cmd_list w = (Inr (), print ''No devices found.'' w)"
    using assms by (simp add: main_def list_command_def)
  have p: "main env argv0 (Cmd_pick tx_port) w
         = (Inl (SystemExit
              ''No devices found. (mDNS blocked? component not advertising _esp32udplog._udp?)''), w)"
    for tx_port
    using assms by (simp add: main_def pick_command_def pick_device_def)
  have d1: "main env argv0 a w
            = (Inl (SystemExit
                 ''No devices found. (mDNS blocked? component not advertising _esp32udplog._udp?)''), w)"
    if "takes_device a" and "device_arg a = ''pick''"
    using that assms by (cases a) (simp_all add: main_def resolve_def pick_device_def)
  have d2: "main env argv0 a w
            = (Inl (SystemExit (''Device not found: '' @ device_arg a @ ''. Run: '' @ argv0
                                  @ '' list'')), w)"
    if "takes_device a" and "device_arg a \<noteq> ''pick''"
    using that assms by (cases a) (simp_all add: main_def resolve_def)
  have u: "\<not> unhandled (fst (main env argv0 a w))
      \<and> exit_status (fst (main env argv0 a w)) = (if a = Cmd_list then 0 else 1)"
    if "\<not> is_listen a"
  proof (cases "takes_device a")
    case True
    then have "a \<noteq> Cmd_list"
      by auto
    with True show ?thesis
      using d1 d2 by (cases "device_arg a = ''pick''") simp_all
  next
    case False
    with that l p show ?thesis
      by (cases a) simp_all
  qed
  from l p d1 d2 u show ?thesis by blast
qed

theorem empty_discovery_outcomes_witness:
  "main quiet_os ''cli'' Cmd_list io0 = (Inr (), print ''No devices found.'' io0)
   \<and> main quiet_os ''cli'' (Cmd_unbind ''pick'') io0
       = (Inl (SystemExit
            ''No devices found. (mDNS blocked? component not advertising _esp32udplog._udp?)''), io0)
   \<and> main quiet_os ''cli'' (Cmd_status ''my-device'') io0
       = (Inl (SystemExit ''Device not found: my-device. Run: cli list''), io0)"
proof -
  have e: "discover (mdns quiet_os) = []"
    by (simp add: quiet_os_def discover_def dict_values_def)
  from empty_discovery_outcomes [OF e, of "''cli''" io0 0 "Cmd_unbind ''pick''"]
    empty_discovery_outcomes [OF e, of "''cli''" io0 0 "Cmd_status ''my-device''"]
  show ?thesis by simp
qed

subsection \<open>The bind command\<close>

lemma sent_send_udp_cmd:
  "sent (snd (send_udp_cmd env dst_ip dst_port cmd expect_reply w))
     = sent w @ (if udp_ready env then [(dst_ip, dst_port, utf8_encode cmd)] else [])"
  by (simp add: send_udp_cmd_def udp_ready_def Let_def split: option.splits sum.splits)

lemma sent_print_reply: "sent (snd (print_reply dflt r)) = sent (snd r)"
  by (cases r, cases "fst r") (auto simp: print_ustr_def)

lemma dropWhile_id: "xs \<noteq> [] \<Longrightarrow> \<not> P (hd xs) \<Longrightarrow> dropWhile P xs = xs"
  by (cases xs) auto

lemma strip_id:
  assumes "s \<noteq> []" and "\<not> isspace (hd s)" and "\<not> isspace (last s)"
  shows "strip s = s"
proof -
  have l: "lstrip s = s"
    using assms by (simp add: lstrip_def dropWhile_id)
  have "dropWhile isspace (rev s) = rev s"
    using assms by (intro dropWhile_id) (simp_all add: hd_rev)
  then show ?thesis
    by (simp add: strip_def l rstrip_def)
qed

lemma utf8_encode_ascii:
  "list_all (\<lambda>c. (of_char c :: nat) < 128) s \<Longrightarrow> utf8_encode s = map (\<lambda>c. of_nat (of_char c)) s"
  by (induction s) (auto simp: utf8_encode_def encode_char_def)

text \<open>
  C1.  Every run of the bind command, from the \<^verbatim>\<open>bind\<close> subcommand or from action 1
  of the pick menu, sends at most one datagram, to the address and port of the device.
  Its payload is the encoding of the string "bind ", the address, one space, and the
  decimal text of \<^verbatim>\<open>--tx-port\<close>, with nothing after it.  The address is the
  \<^verbatim>\<open>--pc-ip\<close> argument without the white space around it when that is not empty
  (for the subcommand), and else the local address found for the device.  Nothing is
  sent when the local address cannot be found or a call on the socket fails.  An
  argument with no white space at either end, as every IPv4 literal is, is used as it
  is.  (On text below code point 128 the encoding is the text itself, byte by byte:
  \<open>utf8_encode_ascii\<close>.)
\<close>

theorem bind_payload:
  "sent (snd (dispatch env (Cmd_bind dev pc_ip tx_port) d w))
     = sent w @
       (case (if strip pc_ip \<noteq> [] then Inr (strip pc_ip)
              else get_local_ip_for_target env (ip d)) of
          Inl e \<Rightarrow> []
        | Inr a \<Rightarrow>
            if udp_socket env = None \<and> udp_bind env = None \<and> udp_sendto env = None
            then [(ip d, port d, utf8_encode (''bind '' @ a @ '' '' @ str_int tx_port))]
            else [])
   \<and> sent (snd (pick_action env tx_port d ''1'' w))
     = sent w @
       (case get_local_ip_for_target env (ip d) of
          Inl e \<Rightarrow> []
        | Inr a \<Rightarrow>
            if udp_socket env = None \<and> udp_bind env = None \<and> udp_sendto env = None
            then [(ip d, port d, utf8_encode (''bind '' @ a @ '' '' @ str_int tx_port))]
            else [])
   \<and> (pc_ip \<noteq> [] \<and> \<not> isspace (hd pc_ip) \<and> \<not> isspace (last pc_ip) \<longrightarrow> strip pc_ip = pc_ip)"
proof (intro conjI impI)
  show "sent (snd (dispatch env (Cmd_bind dev pc_ip tx_port) d w))
     = sent w @
       (case (if strip pc_ip \<noteq> [] then Inr (strip pc_ip)
              else get_local_ip_for_target env (ip d)) of
          Inl e \<Rightarrow> []
        | Inr a \<Rightarrow>
            if udp_socket env = None \<and> udp_bind env = None \<and> udp_sendto env = None
            then [(ip d, port d, utf8_encode (''bind '' @ a @ '' '' @ str_int tx_port))]
            else [])"
    by (simp add: sent_print_reply sent_send_udp_cmd udp_ready_def split: sum.splits)
  show "sent (snd (pick_action env tx_port d ''1'' w))
     = sent w @
       (case get_local_ip_for_target env (ip d) of
          Inl e \<Rightarrow> []
        | Inr a \<Rightarrow>
            if udp_socket env = None \<and> udp_bind env = None \<and> udp_sendto env = None
            then [(ip d, port d, utf8_encode (''bind '' @ a @ '' '' @ str_int tx_port))]
            else [])"
    by (simp add: pick_action_def sent_print_reply sent_send_udp_cmd udp_ready_def split: sum.splits)
  assume "pc_ip \<noteq> [] \<and> \<not> isspace (hd pc_ip) \<and> \<not> isspace (last pc_ip)"
  then show "strip pc_ip = pc_ip"
    by (simp add: strip_id)
qed


theorem bind_payload_witness:
  "sent (snd (dispatch quiet_os (Cmd_bind ''beta'' [] 9999) dev_beta io0))
     = [(''10.0.0.3'', 9998, utf8_encode ''bind 192.168.1.10 9999'')]
   \<and> sent (snd (dispatch quiet_os (Cmd_bind ''beta'' '' 10.0.0.5 '' 4000) dev_beta io0))
     = [(''10.0.0.3'', 9998, utf8_encode ''bind 10.0.0.5 4000'')]
   \<and> sent (snd (pick_action quiet_os 9999 dev_beta ''1'' io0))
     = [(''10.0.0.3'', 9998, utf8_encode ''bind 192.168.1.10 9999'')]
   \<and> strip ''10.0.0.5'' = ''10.0.0.5''"
proof -
  have p: "str_int 9999 = ''9999''" "str_int 4000 = ''4000''"
    by (simp_all add: text_eval)
  have s: "strip [] = []" "strip '' 10.0.0.5 '' = ''10.0.0.5''"
    by (simp_all add: text_eval)
  have l: "get_local_ip_for_target quiet_os t = Inr ''192.168.1.10''" for t
    by (simp add: get_local_ip_for_target_def quiet_os_def)
  have q: "udp_socket quiet_os = None" "udp_bind quiet_os = None" "udp_sendto quiet_os = None"
    "sent io0 = []" "ip dev_beta = ''10.0.0.3''" "port dev_beta = 9998"
    by (simp_all add: quiet_os_def io0_def dev_beta_def)
  have 1: "sent (snd (dispatch quiet_os (Cmd_bind ''beta'' [] 9999) dev_beta io0))
     = [(''10.0.0.3'', 9998, utf8_encode ''bind 192.168.1.10 9999'')]"
    using bind_payload [of quiet_os "''beta''" "[]" 9999 dev_beta io0]
    by (simp add: p s l q)
  have 2: "sent (snd (dispatch quiet_os (Cmd_bind ''beta'' '' 10.0.0.5 '' 4000) dev_beta io0))
     = [(''10.0.0.3'', 9998, utf8_encode ''bind 10.0.0.5 4000'')]"
    using bind_payload [of quiet_os "''beta''" "'' 10.0.0.5 ''" 4000 dev_beta io0]
    by (simp add: p s l q)
  have 3: "sent (snd (pick_action quiet_os 9999 dev_beta ''1'' io0))
     = [(''10.0.0.3'', 9998, utf8_encode ''bind 192.168.1.10 9999'')]"
    using bind_payload [of quiet_os "''beta''" "[]" 9999 dev_beta io0]
    by (simp add: p s l q)
  have 4: "strip ''10.0.0.5'' = ''10.0.0.5''"
    using bind_payload [of quiet_os "''beta''" "''10.0.0.5''" 9999 dev_beta io0]
    by (simp add: isspace_def)
  from 1 2 3 4 show ?thesis by blast
qed

subsection \<open>Replies\<close>

lemma send_udp_cmd_timeout:
  assumes "udp_socket env = None" and "udp_bind env = None" and "udp_sendto env = None"
    and "udp_recvfrom env = Inl e" and "is_timeout e"
  shows "send_udp_cmd env dst_ip dst_port cmd True w
     = (Inr [], w\<lparr>sent := sent w @ [(dst_ip, dst_port, utf8_encode cmd)]\<rparr>)"
  using assms by (simp add: send_udp_cmd_def)

text \<open>
  C8.  When the socket is created and bound, the command is sent with a reply expected,
  and the receive ends with the timeout, \<^verbatim>\<open>send_udp_cmd\<close> returns the empty string
  with the datagram sent.  Each caller then returns normally after printing "(no
  reply)" (for \<^verbatim>\<open>status\<close>) or "OK (no reply)" (for the others): the four plain
  commands and the bind command of \<^verbatim>\<open>main\<close> (bind given that its address is
  determined), and the five actions of the pick menu.
\<close>

theorem reply_timeout_is_no_error:
  assumes "udp_socket env = None" and "udp_bind env = None" and "udp_sendto env = None"
    and "udp_recvfrom env = Inl e" and "is_timeout e"
  shows "send_udp_cmd env dst_ip dst_port cmd True w
       = (Inr [], w\<lparr>sent := sent w @ [(dst_ip, dst_port, utf8_encode cmd)]\<rparr>)
     \<and> ((a \<in> {Cmd_unbind dev, Cmd_status dev, Cmd_broadcast_on dev, Cmd_broadcast_off dev}
          \<or> a = Cmd_bind dev pc_ip tx_port
              \<and> (strip pc_ip \<noteq> [] \<or> (\<exists>addr. local_addr env (ip d) = Inr addr))) \<longrightarrow>
         fst (dispatch env a d w) = Inr ()
         \<and> stdout (snd (dispatch env a d w))
             = stdout w @ ustr_of (if a = Cmd_status dev then ''(no reply)'' else ''OK (no reply)'')
                 @ [10])
     \<and> ((c \<in> {''2'', ''3'', ''4'', ''5''}
          \<or> c = ''1'' \<and> (\<exists>addr. local_addr env (ip d) = Inr addr)) \<longrightarrow>
         fst (pick_action env tx_port d c w) = Inr ()
         \<and> stdout (snd (pick_action env tx_port d c w))
             = stdout w @ ustr_of (if c = ''2'' then ''(no reply)'' else ''OK (no reply)'') @ [10])"
proof -
  note send = send_udp_cmd_timeout [OF assms]
  have disp: "fst (dispatch env a d w) = Inr ()
         \<and> stdout (snd (dispatch env a d w))
             = stdout w @ ustr_of (if a = Cmd_status dev then ''(no reply)'' else ''OK (no reply)'')
                 @ [10]"
    if "a \<in> {Cmd_unbind dev, Cmd_status dev, Cmd_broadcast_on dev, Cmd_broadcast_off dev}
          \<or> a = Cmd_bind dev pc_ip tx_port
              \<and> (strip pc_ip \<noteq> [] \<or> (\<exists>addr. local_addr env (ip d) = Inr addr))"
    using that
    by (auto simp: send print_ustr_def get_local_ip_for_target_def)
  have act: "fst (pick_action env tx_port d c w) = Inr ()
         \<and> stdout (snd (pick_action env tx_port d c w))
             = stdout w @ ustr_of (if c = ''2'' then ''(no reply)'' else ''OK (no reply)'') @ [10]"
    if "c \<in> {''2'', ''3'', ''4'', ''5''}
          \<or> c = ''1'' \<and> (\<exists>addr. local_addr env (ip d) = Inr addr)"
    using that
    by (auto simp: pick_action_def send print_ustr_def get_local_ip_for_target_def)
  from send disp act show ?thesis by blast
qed


theorem reply_timeout_is_no_error_witness:
  "send_udp_cmd quiet_os ''10.0.0.3'' 9998 ''status'' True io0
     = (Inr [], io0\<lparr>sent := [(''10.0.0.3'', 9998, utf8_encode ''status'')]\<rparr>)
   \<and> fst (dispatch quiet_os (Cmd_status ''beta'') dev_beta io0) = Inr ()
   \<and> stdout (snd (dispatch quiet_os (Cmd_status ''beta'') dev_beta io0))
       = ustr_of ''(no reply)'' @ [10]
   \<and> fst (pick_action quiet_os 9999 dev_beta ''3'' io0) = Inr ()
   \<and> stdout (snd (pick_action quiet_os 9999 dev_beta ''3'' io0))
       = ustr_of ''OK (no reply)'' @ [10]"
proof -
  have h: "udp_socket quiet_os = None" "udp_bind quiet_os = None" "udp_sendto quiet_os = None"
    "udp_recvfrom quiet_os = Inl (SocketTimeout ''timed out'')"
    "is_timeout (SocketTimeout ''timed out'')"
    by (simp_all add: quiet_os_def)
  from reply_timeout_is_no_error [OF h, where dst_ip = "''10.0.0.3''" and dst_port = 9998
      and cmd = "''status''" and w = io0 and a = "Cmd_status ''beta''" and dev = "''beta''"
      and d = dev_beta and c = "''3''" and tx_port = 9999]
  show ?thesis
    by (simp add: io0_def)
qed

lemma send_udp_cmd_empty_reply:
  "send_udp_cmd (env\<lparr>udp_recvfrom := Inr []\<rparr>) dst_ip dst_port cmd expect_reply w
     = send_udp_cmd (env\<lparr>udp_recvfrom := Inl (SocketTimeout m)\<rparr>) dst_ip dst_port cmd expect_reply w"
  by (simp add: send_udp_cmd_def utf8_decode_def Let_def split: option.splits)

lemma send_udp_cmd_no_wait:
  "send_udp_cmd (env\<lparr>udp_recvfrom := Inr []\<rparr>) dst_ip dst_port cmd True w
     = send_udp_cmd env dst_ip dst_port cmd False w"
  by (simp add: send_udp_cmd_def utf8_decode_def split: option.splits)

lemma get_local_ip_recvfrom:
  "get_local_ip_for_target (env\<lparr>udp_recvfrom := x\<rparr>) t = get_local_ip_for_target env t"
  by (simp add: get_local_ip_for_target_def)

lemma dispatch_empty_reply:
  "dispatch (env\<lparr>udp_recvfrom := Inr []\<rparr>) a d w
     = dispatch (env\<lparr>udp_recvfrom := Inl (SocketTimeout m)\<rparr>) a d w"
  by (cases a)
     (simp_all add: send_udp_cmd_empty_reply [of env _ _ _ _ _ m] get_local_ip_recvfrom
        cong: sum.case_cong if_cong)

lemma pick_action_empty_reply:
  "pick_action (env\<lparr>udp_recvfrom := Inr []\<rparr>) tx_port d c w
     = pick_action (env\<lparr>udp_recvfrom := Inl (SocketTimeout m)\<rparr>) tx_port d c w"
  by (simp add: pick_action_def send_udp_cmd_empty_reply [of env _ _ _ _ _ m]
      get_local_ip_recvfrom cong: sum.case_cong if_cong)

lemma listen_logs_recvfrom:
  "listen_logs (env\<lparr>udp_recvfrom := x\<rparr>) p w = listen_logs env p w"
  by (simp add: listen_logs_def Let_def cong: option.case_cong)

lemma main_empty_reply:
  "main (env\<lparr>udp_recvfrom := Inr []\<rparr>) argv0 a w
     = main (env\<lparr>udp_recvfrom := Inl (SocketTimeout m)\<rparr>) argv0 a w"
  by (cases a)
     (simp_all add: main_def pick_command_def listen_logs_recvfrom
        dispatch_empty_reply [of env _ _ _ m] pick_action_empty_reply [of env _ _ _ _ m]
        del: dispatch.simps cong: prod.case_cong sum.case_cong)

text \<open>
  C10.  For \<^verbatim>\<open>send_udp_cmd\<close> a reply of length zero, the timeout of the receive and
  a call with \<^verbatim>\<open>expect_reply=False\<close> give the same result and the same effects,
  whatever the other calls do; when the send goes through the result is the empty
  string, and the caller prints its "(no reply)" text.  A whole run of \<^verbatim>\<open>main\<close> is
  the same for the empty reply as for the timeout.
\<close>

theorem empty_reply_same_as_no_reply:
  "send_udp_cmd (env\<lparr>udp_recvfrom := Inr []\<rparr>) dst_ip dst_port cmd True w
     = send_udp_cmd (env\<lparr>udp_recvfrom := Inl (SocketTimeout m)\<rparr>) dst_ip dst_port cmd True w
   \<and> send_udp_cmd (env\<lparr>udp_recvfrom := Inr []\<rparr>) dst_ip dst_port cmd True w
     = send_udp_cmd env dst_ip dst_port cmd False w
   \<and> (udp_socket env = None \<and> udp_bind env = None \<and> udp_sendto env = None \<longrightarrow>
        fst (send_udp_cmd (env\<lparr>udp_recvfrom := Inr []\<rparr>) dst_ip dst_port cmd True w) = Inr []
        \<and> stdout (snd (dispatch (env\<lparr>udp_recvfrom := Inr []\<rparr>) (Cmd_status dev) d w))
            = stdout w @ ustr_of ''(no reply)'' @ [10]
        \<and> stdout (snd (dispatch (env\<lparr>udp_recvfrom := Inr []\<rparr>) (Cmd_unbind dev) d w))
            = stdout w @ ustr_of ''OK (no reply)'' @ [10])
   \<and> main (env\<lparr>udp_recvfrom := Inr []\<rparr>) argv0 a w
     = main (env\<lparr>udp_recvfrom := Inl (SocketTimeout m)\<rparr>) argv0 a w"
proof (intro conjI impI)
  show "send_udp_cmd (env\<lparr>udp_recvfrom := Inr []\<rparr>) dst_ip dst_port cmd True w
     = send_udp_cmd (env\<lparr>udp_recvfrom := Inl (SocketTimeout m)\<rparr>) dst_ip dst_port cmd True w"
    by (rule send_udp_cmd_empty_reply)
  show "send_udp_cmd (env\<lparr>udp_recvfrom := Inr []\<rparr>) dst_ip dst_port cmd True w
     = send_udp_cmd env dst_ip dst_port cmd False w"
    by (rule send_udp_cmd_no_wait)
  show "main (env\<lparr>udp_recvfrom := Inr []\<rparr>) argv0 a w
     = main (env\<lparr>udp_recvfrom := Inl (SocketTimeout m)\<rparr>) argv0 a w"
    by (rule main_empty_reply)
next
  assume ok: "udp_socket env = None \<and> udp_bind env = None \<and> udp_sendto env = None"
  then show "fst (send_udp_cmd (env\<lparr>udp_recvfrom := Inr []\<rparr>) dst_ip dst_port cmd True w) = Inr []"
    by (simp add: send_udp_cmd_def utf8_decode_def)
  from ok show "stdout (snd (dispatch (env\<lparr>udp_recvfrom := Inr []\<rparr>) (Cmd_status dev) d w))
            = stdout w @ ustr_of ''(no reply)'' @ [10]"
    by (simp add: send_udp_cmd_def utf8_decode_def print_ustr_def)
  from ok show "stdout (snd (dispatch (env\<lparr>udp_recvfrom := Inr []\<rparr>) (Cmd_unbind dev) d w))
            = stdout w @ ustr_of ''OK (no reply)'' @ [10]"
    by (simp add: send_udp_cmd_def utf8_decode_def print_ustr_def)
qed

theorem empty_reply_same_as_no_reply_witness:
  "send_udp_cmd (quiet_os\<lparr>udp_recvfrom := Inr []\<rparr>) ''10.0.0.3'' 9998 ''status'' True io0
     = send_udp_cmd (quiet_os\<lparr>udp_recvfrom := Inl (SocketTimeout ''timed out'')\<rparr>)
         ''10.0.0.3'' 9998 ''status'' True io0
   \<and> fst (send_udp_cmd (quiet_os\<lparr>udp_recvfrom := Inr []\<rparr>) ''10.0.0.3'' 9998 ''status'' True io0)
       = Inr []
   \<and> stdout (snd (dispatch (quiet_os\<lparr>udp_recvfrom := Inr []\<rparr>) (Cmd_status ''beta'') dev_beta io0))
       = ustr_of ''(no reply)'' @ [10]"
proof -
  have h: "udp_socket quiet_os = None \<and> udp_bind quiet_os = None \<and> udp_sendto quiet_os = None"
    by (simp add: quiet_os_def)
  have s: "stdout io0 = []"
    by (simp add: io0_def)
  note t = empty_reply_same_as_no_reply [where env = quiet_os and dst_ip = "''10.0.0.3''"
      and dst_port = 9998 and cmd = "''status''" and w = io0 and m = "''timed out''"
      and dev = "''beta''" and d = dev_beta]
  have a: "send_udp_cmd (quiet_os\<lparr>udp_recvfrom := Inr []\<rparr>) ''10.0.0.3'' 9998 ''status'' True io0
     = send_udp_cmd (quiet_os\<lparr>udp_recvfrom := Inl (SocketTimeout ''timed out'')\<rparr>)
         ''10.0.0.3'' 9998 ''status'' True io0"
    using t by blast
  have b: "fst (send_udp_cmd (quiet_os\<lparr>udp_recvfrom := Inr []\<rparr>) ''10.0.0.3'' 9998 ''status''
      True io0) = Inr []"
    using t h by blast
  have "stdout (snd (dispatch (quiet_os\<lparr>udp_recvfrom := Inr []\<rparr>) (Cmd_status ''beta'') dev_beta
      io0)) = stdout io0 @ ustr_of ''(no reply)'' @ [10]"
    using t h by blast
  then have c: "stdout (snd (dispatch (quiet_os\<lparr>udp_recvfrom := Inr []\<rparr>) (Cmd_status ''beta'')
      dev_beta io0)) = ustr_of ''(no reply)'' @ [10]"
    by (simp only: s append_Nil)
  from a b c show ?thesis by blast
qed

end
